theory Spec2Isabelle
  imports Main "HOL-Library.Word"
begin

unbundle bit_operations_syntax

section \<open>Platform types\<close>

text \<open>
  The logger of \<^verbatim>\<open>Log.hpp\<close> is modelled on an LP64 platform (Linux, x86-64):
  \<^verbatim>\<open>long\<close> and \<^verbatim>\<open>unsigned long\<close> are 64 bits wide and \<^verbatim>\<open>sizeof(long)\<close> is 8,
  \<^verbatim>\<open>int\<close> is 32 bits wide. \<^verbatim>\<open>std::thread::id\<close> is an opaque, totally ordered
  identity, \<^verbatim>\<open>time_t\<close> a number of seconds.
\<close>

type_synonym long = "64 word"
type_synonym uint32_t = "32 word"
type_synonym time_t = int
type_synonym thread_id = nat

definition sizeof_long :: nat where
  "sizeof_long = 8"

section \<open>The C library's integer conversions\<close>

text \<open>
  \<^verbatim>\<open>FormatIntegral\<close> builds one of the format strings \<^verbatim>\<open>%ld\<close>, \<^verbatim>\<open>%lu\<close>, \<^verbatim>\<open>%lx\<close>,
  \<^verbatim>\<open>%lo\<close> and hands it to \<^verbatim>\<open>snprintf\<close>. The text these four conversions produce is fixed
  by the C standard and written out here. \<^verbatim>\<open>SetNumFormat\<close> accepts any \<^verbatim>\<open>char\<close>; for a
  conversion character other than the documented ones the result of \<^verbatim>\<open>snprintf\<close> is not
  modelled (for many characters it is undefined behaviour) and is \<open>None\<close>.
\<close>

definition digit :: "nat \<Rightarrow> char" where
  "digit n = ''0123456789abcdef'' ! n"

function conv :: "nat \<Rightarrow> nat \<Rightarrow> string" where
  "conv b n = (if 2 \<le> b \<and> b \<le> n then conv b (n div b) @ [digit (n mod b)] else [digit n])"
  by pat_completeness auto
termination
  by (relation "measure snd") auto

declare conv.simps [simp del]

definition snprintf :: "string \<Rightarrow> long \<Rightarrow> string option" where
  "snprintf Format Num =
     (if Format = ''%ld'' then
        Some (if sint Num < 0 then CHR ''-'' # conv 10 (nat (- sint Num))
              else conv 10 (nat (sint Num)))
      else if Format = ''%lu'' then Some (conv 10 (unat Num))
      else if Format = ''%lx'' then Some (conv 16 (unat Num))
      else if Format = ''%lo'' then Some (conv 8 (unat Num))
      else None)"

text \<open>
  \<^verbatim>\<open>snprintf(buf, n, ...)\<close> stores into \<open>buf\<close> at most \<open>n - 1\<close> characters of the
  converted text and then the terminating NUL; the rest of \<open>buf\<close> keeps its content.
\<close>

definition snprintf_into :: "string \<Rightarrow> nat \<Rightarrow> string \<Rightarrow> string" where
  "snprintf_into buf n txt =
     (if n = 0 then buf
      else let out = take (n - 1) txt @ [CHR 0x00] in out @ drop (length out) buf)"

section \<open>Number formatting\<close>

text \<open>
  The binary branch of \<^verbatim>\<open>FormatIntegral\<close>:
  \<^verbatim>\<open>for (char i = sizeof(long); i--;)\<close> tests \<open>i\<close>, decrements it and runs the body with
  the decremented value, so the body sees \<open>i = sizeof(long) - 1, ..., 0\<close>. The mask
  \<^verbatim>\<open>1 << i\<close> is computed in \<^verbatim>\<open>int\<close> and converted to \<^verbatim>\<open>long\<close> for the \<^verbatim>\<open>&\<close>.
  The loop is written for any width of \<^verbatim>\<open>long\<close>; \<^verbatim>\<open>FormatIntegral\<close> runs it at 64 bits.
\<close>

fun bin_loop :: "nat \<Rightarrow> 'a::len word \<Rightarrow> bool \<Rightarrow> string \<Rightarrow> string" where
  "bin_loop 0 Num FirstOneFound Ret = Ret"
| "bin_loop (Suc i) Num FirstOneFound Ret =
     (let b = (Num AND scast (push_bit i (1 :: 32 word)) \<noteq> 0);
          FirstOneFound' = (FirstOneFound \<or> b);
          Ret' = (if FirstOneFound' then Ret @ [if b then CHR ''1'' else CHR ''0''] else Ret)
      in bin_loop i Num FirstOneFound' Ret')"

definition FormatIntegral :: "char \<Rightarrow> long \<Rightarrow> string \<Rightarrow> string option" where
  "FormatIntegral m_Format Num Unsigned =
     (if m_Format \<noteq> CHR ''b'' then
        (let Format = ''%l'' @ (if m_Format = CHR ''d'' then Unsigned else [m_Format]) in
         case snprintf Format Num of
           None \<Rightarrow> None
         | Some txt \<Rightarrow>
             (let Size = length txt;
                  Ret = replicate (Size + 1) (CHR 0x00)
              in Some (snprintf_into Ret (Size + 1) txt)))
      else
        (let Ret = bin_loop sizeof_long Num False [] in
         Some (if Ret = [] then ''0'' else Ret)))"

definition FormatIntegral_unsigned :: "char \<Rightarrow> long \<Rightarrow> string option" where
  "FormatIntegral_unsigned m_Format Num = FormatIntegral m_Format Num ''u''"

definition FormatIntegral_signed :: "char \<Rightarrow> long \<Rightarrow> string option" where
  "FormatIntegral_signed m_Format Num = FormatIntegral m_Format Num ''d''"

section \<open>Message buffers\<close>

record Buffer =
  Time :: time_t
  Tag :: string
  Message :: string
  Level :: uint32_t
  DebugMsg :: bool
  ShowTime :: bool

text \<open>The constructor \<^verbatim>\<open>Buffer()\<close>; \<open>now\<close> is what \<^verbatim>\<open>time(nullptr)\<close> returns.\<close>

definition Buffer_init :: "time_t \<Rightarrow> Buffer" where
  "Buffer_init now =
     \<lparr>Time = now, Tag = [], Message = [], Level = 0, DebugMsg = False, ShowTime = True\<rparr>"

text \<open>
  \<^verbatim>\<open>std::map<std::thread::id, Buffer>\<close> as an association list in key order, the order
  in which the map's iterator visits it. \<open>map_index\<close> is \<^verbatim>\<open>operator[]\<close>: it
  default-constructs and inserts the element when the key is absent.
  \<open>modify_buffer\<close> is an assignment through the reference \<^verbatim>\<open>operator[]\<close> returns.
\<close>

type_synonym buffers = "(thread_id \<times> Buffer) list"

fun map_insert :: "thread_id \<Rightarrow> Buffer \<Rightarrow> buffers \<Rightarrow> buffers" where
  "map_insert k v [] = [(k, v)]"
| "map_insert k v ((k', v') # m) =
     (if k < k' then (k, v) # (k', v') # m
      else if k = k' then (k, v) # m
      else (k', v') # map_insert k v m)"

definition map_erase :: "thread_id \<Rightarrow> buffers \<Rightarrow> buffers" where
  "map_erase k m = filter (\<lambda>(k', v). k' \<noteq> k) m"

definition map_index :: "time_t \<Rightarrow> thread_id \<Rightarrow> buffers \<Rightarrow> Buffer \<times> buffers" where
  "map_index now k m =
     (case map_of m k of
        Some b \<Rightarrow> (b, m)
      | None \<Rightarrow> (Buffer_init now, map_insert k (Buffer_init now) m))"

definition modify_buffer ::
  "time_t \<Rightarrow> thread_id \<Rightarrow> (Buffer \<Rightarrow> Buffer) \<Rightarrow> buffers \<Rightarrow> buffers" where
  "modify_buffer now k f m = (let (b, m') = map_index now k m in map_insert k (f b) m')"

section \<open>The default renderer\<close>

text \<open>
  \<^verbatim>\<open>for(uint32_t i = 0; i < buf.Level; i++) Ret += ' ';\<close> with its 32-bit counter.
\<close>

function spaces_loop :: "uint32_t \<Rightarrow> uint32_t \<Rightarrow> string \<Rightarrow> string" where
  "spaces_loop i n Ret = (if i < n then spaces_loop (i + 1) n (Ret @ [CHR '' '']) else Ret)"
  by pat_completeness auto
termination
proof (relation "measure (\<lambda>(i, n, Ret). unat n - unat i)")
  show "wf (measure (\<lambda>(i :: uint32_t, n :: uint32_t, Ret :: string). unat n - unat i))"
    by simp
next
  fix i n :: uint32_t and Ret :: string
  assume "i < n"
  then have "unat i < unat n"
    by (simp add: word_less_nat_alt)
  moreover have "unat n < 2 ^ 32"
    using unsigned_less [of n, where 'a = nat] by simp
  ultimately have "unat (i + 1) = unat i + 1"
    by (simp add: unat_word_ariths)
  with \<open>unat i < unat n\<close> show "((i + 1, n, Ret @ [CHR '' '']), (i, n, Ret))
      \<in> measure (\<lambda>(i, n, Ret). unat n - unat i)"
    by simp
qed

declare spaces_loop.simps [simp del]

text \<open>
  \<open>strftime_local t\<close> stands for the text that \<^verbatim>\<open>strftime\<close> writes for the format
  \<^verbatim>\<open>"%F %H:%M:%S"\<close> (that is \<^verbatim>\<open>YYYY-MM-DD HH:MM:SS\<close>) at \<^verbatim>\<open>localtime(&t)\<close>; the
  time zone belongs to the process environment.
\<close>

definition FormatMessage :: "(time_t \<Rightarrow> string) \<Rightarrow> Buffer \<Rightarrow> string" where
  "FormatMessage strftime_local buf =
     (let Ret0 = spaces_loop 0 (Level buf) [];
          Ret1 = (if ShowTime buf
                  then Ret0 @ (''[ '' @ strftime_local (Time buf) @ '' ] '') else Ret0);
          Ret2 = (if Tag buf \<noteq> [] then Ret1 @ (''[ '' @ Tag buf @ '' ] '') else Ret1)
      in Ret2 @ Message buf)"

section \<open>The file interface\<close>

text \<open>
  \<^verbatim>\<open>IFileOut\<close> is an abstract class: an object of it is its three methods together with
  the object's own state \<open>'fs\<close>. \<^verbatim>\<open>OpenFile\<close> is the one method documented to throw
  (\<^verbatim>\<open>@throw\<close> at \<^verbatim>\<open>LogToFile\<close>): it returns the exception, if one is thrown, and the
  state the object is left in.
\<close>

record ('fs, 'e) IFileOut =
  OpenFile :: "string \<Rightarrow> 'fs \<Rightarrow> 'e option \<times> 'fs"
  WriteToFile :: "string \<Rightarrow> 'fs \<Rightarrow> 'fs"
  CloseFile :: "'fs \<Rightarrow> 'fs"

text \<open>
  \<^verbatim>\<open>std::ofstream\<close>, as far as \<^verbatim>\<open>DefaultFileOut\<close> uses it. The stream's exception mask
  is never set, so a failure sets the stream's error state and nothing is thrown.
  \<open>can_open\<close> is the file system: whether a file of that name can be opened for
  writing. Opening with \<^verbatim>\<open>std::ios::out\<close> truncates the file.
\<close>

record ofstream =
  is_open :: bool
  failbit :: bool
  filename :: string
  contents :: string

definition ofstream_init :: ofstream where
  "ofstream_init = \<lparr>is_open = False, failbit = False, filename = [], contents = []\<rparr>"

definition ofstream_open :: "(string \<Rightarrow> bool) \<Rightarrow> string \<Rightarrow> ofstream \<Rightarrow> ofstream" where
  "ofstream_open can_open fname f =
     (if \<not> is_open f \<and> can_open fname
      then \<lparr>is_open = True, failbit = False, filename = fname, contents = []\<rparr>
      else f\<lparr>failbit := True\<rparr>)"

definition ofstream_write :: "string \<Rightarrow> ofstream \<Rightarrow> ofstream" where
  "ofstream_write msg f =
     (if is_open f \<and> \<not> failbit f then f\<lparr>contents := contents f @ msg\<rparr>
      else f\<lparr>failbit := True\<rparr>)"

text \<open>Closing an open stream is taken to succeed.\<close>

definition ofstream_close :: "ofstream \<Rightarrow> ofstream" where
  "ofstream_close f = f\<lparr>is_open := False\<rparr>"

definition DefaultFileOut :: "(string \<Rightarrow> bool) \<Rightarrow> (ofstream, 'e) IFileOut" where
  "DefaultFileOut can_open =
     \<lparr>OpenFile = (\<lambda>fname m_Output. (None, ofstream_open can_open fname m_Output)),
      WriteToFile = (\<lambda>msg m_Output. ofstream_write msg m_Output),
      CloseFile = (\<lambda>m_Output. if is_open m_Output then ofstream_close m_Output else m_Output)\<rparr>"

section \<open>The logger\<close>

text \<open>
  The members of \<^verbatim>\<open>CLog\<close>. \<open>m_OutFile\<close> holds the methods of the file object and
  \<open>file_obj\<close> that object's state. \<open>console\<close> is the sequence of strings handed to
  \<open>m_Output\<close>, one entry for each call; the default callback \<^verbatim>\<open>ConsoleOut\<close> writes
  each of them to \<^verbatim>\<open>std::cout\<close>. The mutex does not show in a sequential run; the
  locking of each method is modelled in its own section below.
\<close>

record ('fs, 'e) CLog =
  m_FormatMessage :: "Buffer \<Rightarrow> string"
  m_OutFile :: "('fs, 'e) IFileOut"
  file_obj :: 'fs
  m_LogToFile :: bool
  m_LogDebug :: bool
  m_Buffers :: buffers
  m_Format :: char
  m_Level :: uint32_t
  console :: "string list"

text \<open>The constructor. \<^verbatim>\<open>m_Level = -1\<close> converts the \<^verbatim>\<open>int\<close> -1 to \<^verbatim>\<open>uint32_t\<close>.\<close>

definition CLog_init :: "(time_t \<Rightarrow> string) \<Rightarrow> (string \<Rightarrow> bool) \<Rightarrow> (ofstream, 'e) CLog" where
  "CLog_init strftime_local can_open =
     \<lparr>m_FormatMessage = FormatMessage strftime_local,
      m_OutFile = DefaultFileOut can_open,
      file_obj = ofstream_init,
      m_LogToFile = False,
      m_LogDebug = False,
      m_Buffers = [],
      m_Format = CHR ''d'',
      m_Level = word_of_int (- 1),
      console = []\<rparr>"

definition CloseLogFile :: "('fs, 'e) CLog \<Rightarrow> ('fs, 'e) CLog" where
  "CloseLogFile s = (let s1 = s\<lparr>m_LogToFile := False\<rparr> in
     s1\<lparr>file_obj := CloseFile (m_OutFile s1) (file_obj s1)\<rparr>)"

text \<open>
  \<^verbatim>\<open>LogToFile\<close> returns the exception that leaves it, if any, and the logger's state.
  When \<^verbatim>\<open>OpenFile\<close> throws, the assignment \<^verbatim>\<open>m_LogToFile = true\<close> is not reached.
\<close>

definition LogToFile :: "string \<Rightarrow> ('fs, 'e) CLog \<Rightarrow> 'e option \<times> ('fs, 'e) CLog" where
  "LogToFile fname s =
     (let s1 = CloseLogFile s;
          (exn, f) = OpenFile (m_OutFile s1) fname (file_obj s1);
          s2 = s1\<lparr>file_obj := f\<rparr>
      in case exn of
           Some e \<Rightarrow> (Some e, s2)
         | None \<Rightarrow> (None, s2\<lparr>m_LogToFile := True\<rparr>))"

text \<open>
  The overloads of \<^verbatim>\<open>operator<<\<close>. \<open>now\<close> is the clock at the call and \<open>tid\<close> is
  \<^verbatim>\<open>std::this_thread::get_id()\<close>. The integral overloads receive the value after the
  cast \<^verbatim>\<open>(long)val\<close> or \<^verbatim>\<open>(unsigned long)val\<close>. \<open>to_string\<close> is \<^verbatim>\<open>std::to_string\<close> on
  the floating point type \<open>'f\<close>.
\<close>

definition append_Message ::
  "time_t \<Rightarrow> thread_id \<Rightarrow> string \<Rightarrow> ('fs, 'e) CLog \<Rightarrow> ('fs, 'e) CLog" where
  "append_Message now tid txt s =
     s\<lparr>m_Buffers := modify_buffer now tid (\<lambda>b. b\<lparr>Message := Message b @ txt\<rparr>) (m_Buffers s)\<rparr>"

definition shl_signed ::
  "time_t \<Rightarrow> thread_id \<Rightarrow> long \<Rightarrow> ('fs, 'e) CLog \<Rightarrow> ('fs, 'e) CLog option" where
  "shl_signed now tid val s =
     map_option (\<lambda>txt. append_Message now tid txt s) (FormatIntegral_signed (m_Format s) val)"

definition shl_unsigned ::
  "time_t \<Rightarrow> thread_id \<Rightarrow> long \<Rightarrow> ('fs, 'e) CLog \<Rightarrow> ('fs, 'e) CLog option" where
  "shl_unsigned now tid val s =
     map_option (\<lambda>txt. append_Message now tid txt s) (FormatIntegral_unsigned (m_Format s) val)"

definition shl_floating ::
  "('f \<Rightarrow> string) \<Rightarrow> time_t \<Rightarrow> thread_id \<Rightarrow> 'f \<Rightarrow> ('fs, 'e) CLog \<Rightarrow> ('fs, 'e) CLog" where
  "shl_floating to_string now tid val s = append_Message now tid (to_string val) s"

definition shl_bool :: "time_t \<Rightarrow> thread_id \<Rightarrow> bool \<Rightarrow> ('fs, 'e) CLog \<Rightarrow> ('fs, 'e) CLog" where
  "shl_bool now tid val s =
     (if val then append_Message now tid ''true'' s else append_Message now tid ''false'' s)"

definition shl_string :: "time_t \<Rightarrow> thread_id \<Rightarrow> string \<Rightarrow> ('fs, 'e) CLog \<Rightarrow> ('fs, 'e) CLog" where
  "shl_string now tid val s = append_Message now tid val s"

definition Put :: "time_t \<Rightarrow> thread_id \<Rightarrow> char \<Rightarrow> ('fs, 'e) CLog \<Rightarrow> ('fs, 'e) CLog" where
  "Put now tid c s = append_Message now tid [c] s"

text \<open>
  The body of the \<^verbatim>\<open>if\<close> that \<^verbatim>\<open>Flush\<close> and \<^verbatim>\<open>FlushAll\<close> share: render, hand to
  \<open>m_Output\<close>, and write to the file when file logging is on.
\<close>

definition write_out :: "Buffer \<Rightarrow> ('fs, 'e) CLog \<Rightarrow> ('fs, 'e) CLog" where
  "write_out buf s =
     (let Msg = m_FormatMessage s buf;
          s1 = s\<lparr>console := console s @ [Msg]\<rparr>
      in if m_LogToFile s1 then s1\<lparr>file_obj := WriteToFile (m_OutFile s1) Msg (file_obj s1)\<rparr> else s1)"

definition Flush :: "time_t \<Rightarrow> thread_id \<Rightarrow> ('fs, 'e) CLog \<Rightarrow> ('fs, 'e) CLog" where
  "Flush now tid s =
     (let (buf, m) = map_index now tid (m_Buffers s);
          s1 = s\<lparr>m_Buffers := m\<rparr>;
          s2 = (if (m_LogDebug s1 \<or> (\<not> m_LogDebug s1 \<and> \<not> DebugMsg buf)) \<and> Level buf \<le> m_Level s1
                then write_out buf s1 else s1)
      in s2\<lparr>m_Buffers := map_erase tid (m_Buffers s2)\<rparr>)"

function FlushAll :: "('fs, 'e) CLog \<Rightarrow> ('fs, 'e) CLog" where
  "FlushAll s =
     (case m_Buffers s of
        [] \<Rightarrow> s
      | (tid, buf) # rest \<Rightarrow>
          FlushAll
            ((if (m_LogDebug s \<or> (\<not> m_LogDebug s \<and> \<not> DebugMsg buf)) \<and> Level buf \<le> m_Level s
              then write_out buf s else s)\<lparr>m_Buffers := rest\<rparr>))"
  by pat_completeness auto
termination
  by (relation "measure (\<lambda>s. length (m_Buffers s))") auto

declare FlushAll.simps [simp del]

definition SetTag :: "time_t \<Rightarrow> thread_id \<Rightarrow> string \<Rightarrow> ('fs, 'e) CLog \<Rightarrow> ('fs, 'e) CLog" where
  "SetTag now tid tag s =
     (let s1 = s\<lparr>m_Buffers := modify_buffer now tid (\<lambda>b. b\<lparr>Tag := tag\<rparr>) (m_Buffers s)\<rparr>
      in s1\<lparr>m_Buffers :=
              modify_buffer now tid (\<lambda>b. b\<lparr>DebugMsg := (tag = ''debug'')\<rparr>) (m_Buffers s1)\<rparr>)"

definition SetLogLevel :: "time_t \<Rightarrow> thread_id \<Rightarrow> uint32_t \<Rightarrow> ('fs, 'e) CLog \<Rightarrow> ('fs, 'e) CLog" where
  "SetLogLevel now tid lvl s =
     s\<lparr>m_Buffers := modify_buffer now tid (\<lambda>b. b\<lparr>Level := lvl\<rparr>) (m_Buffers s)\<rparr>"

definition ShowTimestamp :: "time_t \<Rightarrow> thread_id \<Rightarrow> bool \<Rightarrow> ('fs, 'e) CLog \<Rightarrow> ('fs, 'e) CLog" where
  "ShowTimestamp now tid Show s =
     s\<lparr>m_Buffers := modify_buffer now tid (\<lambda>b. b\<lparr>ShowTime := Show\<rparr>) (m_Buffers s)\<rparr>"

definition ShowLogLevel :: "uint32_t \<Rightarrow> ('fs, 'e) CLog \<Rightarrow> ('fs, 'e) CLog" where
  "ShowLogLevel lvl s = s\<lparr>m_Level := lvl\<rparr>"

definition EnableDebugLog :: "bool \<Rightarrow> ('fs, 'e) CLog \<Rightarrow> ('fs, 'e) CLog" where
  "EnableDebugLog State s = s\<lparr>m_LogDebug := State\<rparr>"

definition SetNumFormat :: "char \<Rightarrow> ('fs, 'e) CLog \<Rightarrow> ('fs, 'e) CLog" where
  "SetNumFormat format s = s\<lparr>m_Format := format\<rparr>"

section \<open>Runs of calls\<close>

text \<open>
  A call of a public method, made by thread \<open>tid\<close> when the clock shows \<open>now\<close>.
  \<open>exec\<close> dispatches a call to the method; a caller of \<^verbatim>\<open>LogToFile\<close> that catches the
  exception goes on with the state the method left. A run is \<open>None\<close> when an integral
  append meets a format character whose conversion is not modelled.
\<close>

datatype 'f call =
    Call_LogToFile string
  | Call_CloseLogFile
  | Call_shl_signed long
  | Call_shl_unsigned long
  | Call_shl_floating 'f
  | Call_shl_bool bool
  | Call_shl_string string
  | Call_Flush
  | Call_FlushAll
  | Call_Put char
  | Call_SetTag string
  | Call_SetLogLevel uint32_t
  | Call_ShowTimestamp bool
  | Call_ShowLogLevel uint32_t
  | Call_EnableDebugLog bool
  | Call_SetNumFormat char

fun is_ShowLogLevel :: "'f call \<Rightarrow> bool" where
  "is_ShowLogLevel (Call_ShowLogLevel lvl) = True"
| "is_ShowLogLevel c = False"

fun is_append :: "'f call \<Rightarrow> bool" where
  "is_append (Call_shl_signed v) = True"
| "is_append (Call_shl_unsigned v) = True"
| "is_append (Call_shl_floating x) = True"
| "is_append (Call_shl_bool b) = True"
| "is_append (Call_shl_string v) = True"
| "is_append (Call_Put c) = True"
| "is_append c = False"

fun exec ::
  "('f \<Rightarrow> string) \<Rightarrow> time_t \<times> thread_id \<times> 'f call \<Rightarrow> ('fs, 'e) CLog
     \<Rightarrow> ('fs, 'e) CLog option" where
  "exec to_string (now, tid, Call_LogToFile fname) s = Some (snd (LogToFile fname s))"
| "exec to_string (now, tid, Call_CloseLogFile) s = Some (CloseLogFile s)"
| "exec to_string (now, tid, Call_shl_signed val) s = shl_signed now tid val s"
| "exec to_string (now, tid, Call_shl_unsigned val) s = shl_unsigned now tid val s"
| "exec to_string (now, tid, Call_shl_floating val) s =
     Some (shl_floating to_string now tid val s)"
| "exec to_string (now, tid, Call_shl_bool val) s = Some (shl_bool now tid val s)"
| "exec to_string (now, tid, Call_shl_string val) s = Some (shl_string now tid val s)"
| "exec to_string (now, tid, Call_Flush) s = Some (Flush now tid s)"
| "exec to_string (now, tid, Call_FlushAll) s = Some (FlushAll s)"
| "exec to_string (now, tid, Call_Put c) s = Some (Put now tid c s)"
| "exec to_string (now, tid, Call_SetTag tag) s = Some (SetTag now tid tag s)"
| "exec to_string (now, tid, Call_SetLogLevel lvl) s = Some (SetLogLevel now tid lvl s)"
| "exec to_string (now, tid, Call_ShowTimestamp Show) s = Some (ShowTimestamp now tid Show s)"
| "exec to_string (now, tid, Call_ShowLogLevel lvl) s = Some (ShowLogLevel lvl s)"
| "exec to_string (now, tid, Call_EnableDebugLog State) s = Some (EnableDebugLog State s)"
| "exec to_string (now, tid, Call_SetNumFormat format) s = Some (SetNumFormat format s)"

fun run ::
  "('f \<Rightarrow> string) \<Rightarrow> (time_t \<times> thread_id \<times> 'f call) list \<Rightarrow> ('fs, 'e) CLog
     \<Rightarrow> ('fs, 'e) CLog option" where
  "run to_string [] s = Some s"
| "run to_string (c # cs) s =
     (case exec to_string c s of None \<Rightarrow> None | Some s' \<Rightarrow> run to_string cs s')"

text \<open>
  The string an append call adds to the message, as the overload computes it, and the
  message text a thread has pending in the buffer map.
\<close>

fun appended_text :: "('f \<Rightarrow> string) \<Rightarrow> char \<Rightarrow> 'f call \<Rightarrow> string option" where
  "appended_text to_string fmt (Call_shl_signed v) = FormatIntegral_signed fmt v"
| "appended_text to_string fmt (Call_shl_unsigned v) = FormatIntegral_unsigned fmt v"
| "appended_text to_string fmt (Call_shl_floating x) = Some (to_string x)"
| "appended_text to_string fmt (Call_shl_bool b) = Some (if b then ''true'' else ''false'')"
| "appended_text to_string fmt (Call_shl_string v) = Some v"
| "appended_text to_string fmt (Call_Put c) = Some [c]"
| "appended_text to_string fmt c = None"

definition pending :: "thread_id \<Rightarrow> buffers \<Rightarrow> string" where
  "pending tid m = (case map_of m tid of Some b \<Rightarrow> Message b | None \<Rightarrow> [])"

section \<open>The filter law in the words of the specification\<close>

text \<open>
  The specification's filter law: a debug buffer is rendered iff debug logging is enabled
  and its level is at most the maximal visible level; any other buffer iff its level is at
  most the maximal visible level. The condition \<^verbatim>\<open>Flush\<close> and \<^verbatim>\<open>FlushAll\<close> test is
  written differently and is compared with this one below.
\<close>

definition spec_filter_law :: "bool \<Rightarrow> uint32_t \<Rightarrow> Buffer \<Rightarrow> bool" where
  "spec_filter_law debugEnabled maxVisibleLevel buf =
     (if DebugMsg buf then debugEnabled \<and> Level buf \<le> maxVisibleLevel
      else Level buf \<le> maxVisibleLevel)"

section \<open>The locking of each method\<close>

text \<open>
  What each public method does with the mutex \<^verbatim>\<open>m_LogLock\<close> and with the members of the
  logger, in program order: a \<^verbatim>\<open>std::lock_guard\<close> at the top of a body is \<open>Lock\<close> before
  and \<open>Unlock\<close> after the accesses of that body. \<^verbatim>\<open>LogToFile\<close> calls \<^verbatim>\<open>CloseLogFile\<close>,
  which locks and unlocks, before it takes the lock itself. \<open>under_lock held as\<close> says
  that every member access of \<open>as\<close> happens while the mutex is held.
\<close>

datatype member =
  M_Output | M_FormatMessage | M_OutFile | M_LogToFile | M_LogDebug | M_Buffers | M_Format
  | M_Level

datatype action = Lock | Unlock | Access member

datatype body =
    LogToFile_body | CloseLogFile_body
  | shl_integral_body | shl_floating_body | shl_bool_body | shl_string_body
  | Flush_body | FlushAll_body | Put_body
  | SetTag_body | SetLogLevel_body | ShowTimestamp_body
  | ShowLogLevel_body | EnableDebugLog_body | SetNumFormat_body
  | SetOutputCallback_body | SetFormatCallback_body | SetFileOutCallback_body

fun actions :: "body \<Rightarrow> action list" where
  "actions LogToFile_body =
     [Lock, Access M_LogToFile, Access M_OutFile, Unlock,
      Lock, Access M_OutFile, Access M_LogToFile, Unlock]"
| "actions CloseLogFile_body = [Lock, Access M_LogToFile, Access M_OutFile, Unlock]"
| "actions shl_integral_body = [Lock, Access M_Format, Access M_Buffers, Unlock]"
| "actions shl_floating_body = [Lock, Access M_Buffers, Unlock]"
| "actions shl_bool_body = [Lock, Access M_Buffers, Unlock]"
| "actions shl_string_body = [Lock, Access M_Buffers, Unlock]"
| "actions Flush_body =
     [Lock, Access M_Buffers, Access M_LogDebug, Access M_Level, Access M_FormatMessage,
      Access M_Output, Access M_LogToFile, Access M_OutFile, Access M_Buffers, Unlock]"
| "actions FlushAll_body =
     [Lock, Access M_Buffers, Access M_LogDebug, Access M_Level, Access M_FormatMessage,
      Access M_Output, Access M_LogToFile, Access M_OutFile, Access M_Buffers, Unlock]"
| "actions Put_body = [Lock, Access M_Buffers, Unlock]"
| "actions SetTag_body = [Lock, Access M_Buffers, Access M_Buffers, Unlock]"
| "actions SetLogLevel_body = [Lock, Access M_Buffers, Unlock]"
| "actions ShowTimestamp_body = [Lock, Access M_Buffers, Unlock]"
| "actions ShowLogLevel_body = [Access M_Level]"
| "actions EnableDebugLog_body = [Lock, Access M_LogDebug, Unlock]"
| "actions SetNumFormat_body = [Access M_Format]"
| "actions SetOutputCallback_body = [Access M_Output]"
| "actions SetFormatCallback_body = [Access M_FormatMessage]"
| "actions SetFileOutCallback_body = [Access M_OutFile]"

fun under_lock :: "bool \<Rightarrow> action list \<Rightarrow> bool" where
  "under_lock held [] = True"
| "under_lock held (Lock # as) = under_lock True as"
| "under_lock held (Unlock # as) = under_lock False as"
| "under_lock held (Access m # as) = (held \<and> under_lock held as)"

section \<open>Facts about the buffer map\<close>

lemma map_of_map_insert:
  "map_of (map_insert k v m) k' = (if k' = k then Some v else map_of m k')"
  by (induction m) auto

lemma map_of_map_erase:
  "map_of (map_erase k m) k' = (if k' = k then None else map_of m k')"
  by (induction m) (auto simp: map_erase_def)

lemma map_of_modify_buffer:
  "map_of (modify_buffer now k f m) k' =
     (if k' = k then Some (f (case map_of m k of Some b \<Rightarrow> b | None \<Rightarrow> Buffer_init now))
      else map_of m k')"
  by (simp add: modify_buffer_def map_index_def map_of_map_insert split: option.split)

lemma pending_modify_buffer:
  "pending tid (modify_buffer now tid (\<lambda>b. b\<lparr>Message := Message b @ txt\<rparr>) m) =
     pending tid m @ txt"
  by (simp add: pending_def map_of_modify_buffer Buffer_init_def split: option.split)

section \<open>Facts about the formatting functions\<close>

lemma snprintf_into_full:
  "snprintf_into (replicate (Suc (length txt)) c) (Suc (length txt)) txt = txt @ [CHR 0x00]"
  by (simp add: snprintf_into_def)

text \<open>
  Outside binary mode \<^verbatim>\<open>FormatIntegral\<close> returns the converted text followed by the NUL
  that \<^verbatim>\<open>snprintf\<close> stored: the string was resized to \<open>Size + 1\<close> characters.
\<close>

lemma FormatIntegral_snprintf:
  "fmt \<noteq> CHR ''b'' \<Longrightarrow> FormatIntegral fmt Num Unsigned =
     map_option (\<lambda>txt. txt @ [CHR 0x00])
       (snprintf (''%l'' @ (if fmt = CHR ''d'' then Unsigned else [fmt])) Num)"
  unfolding FormatIntegral_def Let_def
  by (cases "snprintf (''%l'' @ (if fmt = CHR ''d'' then Unsigned else [fmt])) Num")
     (simp_all add: snprintf_into_full del: replicate.simps)

lemma conv_small: "n < b \<Longrightarrow> conv b n = [digit n]"
  by (subst conv.simps) simp

lemma conv_step:
  "2 \<le> b \<Longrightarrow> b \<le> n \<Longrightarrow> conv b n = conv b (n div b) @ [digit (n mod b)]"
  by (subst conv.simps) simp

lemma snprintf_examples:
  "snprintf ''%ld'' 1 = Some ''1''"
  "snprintf ''%lx'' 255 = Some ''ff''"
  "snprintf ''%ld'' (- 12) = Some ''-12''"
  "snprintf ''%lo'' 8 = Some ''10''"
  by (simp_all add: snprintf_def conv_small conv_step digit_def)

lemma bin_loop_length:
  "length (bin_loop n Num First Ret) \<le> length Ret + n"
proof (induction n arbitrary: First Ret)
  case 0
  show ?case by simp
next
  case (Suc n)
  let ?b = "Num AND scast (push_bit n (1 :: 32 word)) \<noteq> 0"
  show ?case
  proof (cases "First \<or> ?b")
    case True
    with Suc [of True "Ret @ [if ?b then CHR ''1'' else CHR ''0'']"] show ?thesis
      by (simp add: Let_def del: push_bit_of_1)
  next
    case False
    with Suc [of False Ret] show ?thesis
      by (simp add: Let_def del: push_bit_of_1)
  qed
qed

text \<open>In binary mode no more than \<^verbatim>\<open>sizeof(long)\<close> digits are ever produced.\<close>

lemma FormatIntegral_binary_length:
  "FormatIntegral (CHR ''b'') Num Unsigned = Some r \<Longrightarrow> length r \<le> 8"
  using bin_loop_length [of sizeof_long Num False "[]"]
  by (auto simp: FormatIntegral_def Let_def sizeof_long_def split: if_splits)

lemma binary_0: "FormatIntegral (CHR ''b'') 0 ''d'' = Some ''0''"
  by code_simp

lemma binary_15: "FormatIntegral (CHR ''b'') 15 ''u'' = Some ''1111''"
  by code_simp

lemma binary_minus_1: "FormatIntegral (CHR ''b'') (- 1) ''d'' = Some ''11111111''"
  by code_simp

lemma binary_256: "FormatIntegral (CHR ''b'') 256 ''d'' = Some ''0''"
  by code_simp

text \<open>Where \<^verbatim>\<open>long\<close> has 4 bytes (ILP32, LLP64) the loop runs 4 times.\<close>

lemma binary_minus_1_long32: "bin_loop 4 (- 1 :: 32 word) False [] = ''1111''"
  by code_simp

lemma spaces_loop_replicate:
  "i \<le> n \<Longrightarrow> spaces_loop i n Ret = Ret @ replicate (unat n - unat i) (CHR '' '')"
proof (induction i n Ret rule: spaces_loop.induct)
  case (1 i n Ret)
  show ?case
  proof (cases "i < n")
    case True
    then have lt: "unat i < unat n"
      by (simp add: word_less_nat_alt)
    moreover have "unat n < 2 ^ 32"
      using unsigned_less [of n, where 'a = nat] by simp
    ultimately have suc: "unat (i + 1) = unat i + 1"
      by (simp add: unat_word_ariths)
    with lt have le: "i + 1 \<le> n"
      by (simp add: word_le_nat_alt)
    have "unat n - unat i = Suc (unat n - unat (i + 1))"
      using lt suc by simp
    then have "replicate (unat n - unat i) (CHR '' '') =
        CHR '' '' # replicate (unat n - unat (i + 1)) (CHR '' '')"
      by simp
    with True "1.IH" [OF True le] show ?thesis
      by (subst spaces_loop.simps) simp
  next
    case False
    with "1.prems" have "i = n" by simp
    then show ?thesis
      by (subst spaces_loop.simps) simp
  qed
qed

lemma FormatMessage_closed:
  "FormatMessage strftime_local buf =
     replicate (unat (Level buf)) (CHR '' '')
     @ (if ShowTime buf then ''[ '' @ strftime_local (Time buf) @ '' ] '' else [])
     @ (if Tag buf \<noteq> [] then ''[ '' @ Tag buf @ '' ] '' else [])
     @ Message buf"
  by (simp add: FormatMessage_def spaces_loop_replicate)

section \<open>Facts about the methods\<close>

text \<open>The condition of the source is the filter law of the specification.\<close>

lemma source_filter_iff:
  "((d \<or> (\<not> d \<and> \<not> DebugMsg buf)) \<and> Level buf \<le> l) = spec_filter_law d l buf"
  by (auto simp: spec_filter_law_def)

lemma write_out_fields [simp]:
  "m_FormatMessage (write_out buf s) = m_FormatMessage s"
  "m_OutFile (write_out buf s) = m_OutFile s"
  "m_LogToFile (write_out buf s) = m_LogToFile s"
  "m_LogDebug (write_out buf s) = m_LogDebug s"
  "m_Buffers (write_out buf s) = m_Buffers s"
  "m_Format (write_out buf s) = m_Format s"
  "m_Level (write_out buf s) = m_Level s"
  "console (write_out buf s) = console s @ [m_FormatMessage s buf]"
  "file_obj (write_out buf s) =
     (if m_LogToFile s then WriteToFile (m_OutFile s) (m_FormatMessage s buf) (file_obj s)
      else file_obj s)"
  by (simp_all add: write_out_def Let_def)

lemma Flush_fields [simp]:
  "m_FormatMessage (Flush now tid s) = m_FormatMessage s"
  "m_OutFile (Flush now tid s) = m_OutFile s"
  "m_LogToFile (Flush now tid s) = m_LogToFile s"
  "m_LogDebug (Flush now tid s) = m_LogDebug s"
  "m_Format (Flush now tid s) = m_Format s"
  "m_Level (Flush now tid s) = m_Level s"
  "m_Buffers (Flush now tid s) = map_erase tid (snd (map_index now tid (m_Buffers s)))"
  by (simp_all add: Flush_def Let_def split: prod.split)

lemma Flush_console:
  "console (Flush now tid s) =
     (let buf = fst (map_index now tid (m_Buffers s)) in
      if spec_filter_law (m_LogDebug s) (m_Level s) buf
      then console s @ [m_FormatMessage s buf] else console s)"
  by (simp add: Flush_def Let_def source_filter_iff split: prod.split)

lemma Flush_console_Some:
  "map_of (m_Buffers s) tid = Some buf \<Longrightarrow>
   console (Flush now tid s) =
     (if spec_filter_law (m_LogDebug s) (m_Level s) buf
      then console s @ [m_FormatMessage s buf] else console s)"
  by (simp add: Flush_console map_index_def)

lemma Flush_file:
  "file_obj (Flush now tid s) =
     (let buf = fst (map_index now tid (m_Buffers s)) in
      if spec_filter_law (m_LogDebug s) (m_Level s) buf \<and> m_LogToFile s
      then WriteToFile (m_OutFile s) (m_FormatMessage s buf) (file_obj s) else file_obj s)"
  by (simp add: Flush_def Let_def source_filter_iff split: prod.split)

lemma FlushAll_fields:
  "m_FormatMessage (FlushAll s) = m_FormatMessage s \<and>
   m_OutFile (FlushAll s) = m_OutFile s \<and>
   m_LogToFile (FlushAll s) = m_LogToFile s \<and>
   m_LogDebug (FlushAll s) = m_LogDebug s \<and>
   m_Format (FlushAll s) = m_Format s \<and>
   m_Level (FlushAll s) = m_Level s \<and>
   m_Buffers (FlushAll s) = []"
proof (induction s rule: FlushAll.induct)
  case (1 s)
  show ?case
  proof (cases "m_Buffers s")
    case Nil
    then show ?thesis by (subst (1 2 3 4 5 6 7) FlushAll.simps) simp
  next
    case (Cons p rest)
    obtain tid buf where p: "p = (tid, buf)" by (cases p)
    from "1.IH" [OF Cons [unfolded p] refl] Cons p show ?thesis
      by (subst (1 2 3 4 5 6 7) FlushAll.simps) (simp split: if_splits)
  qed
qed

lemma FlushAll_console:
  "console (FlushAll s) = console s @ map (m_FormatMessage s)
     (filter (spec_filter_law (m_LogDebug s) (m_Level s)) (map snd (m_Buffers s)))"
proof (induction s rule: FlushAll.induct)
  case (1 s)
  show ?case
  proof (cases "m_Buffers s")
    case Nil
    then show ?thesis by (subst FlushAll.simps) simp
  next
    case (Cons p rest)
    obtain tid buf where p: "p = (tid, buf)" by (cases p)
    from "1.IH" [OF Cons [unfolded p] refl] Cons p show ?thesis
      by (subst FlushAll.simps) (simp add: source_filter_iff)
  qed
qed

lemma FlushAll_file:
  "file_obj (FlushAll s) =
     (if m_LogToFile s
      then fold (WriteToFile (m_OutFile s)) (map (m_FormatMessage s)
        (filter (spec_filter_law (m_LogDebug s) (m_Level s)) (map snd (m_Buffers s))))
        (file_obj s)
      else file_obj s)"
proof (induction s rule: FlushAll.induct)
  case (1 s)
  show ?case
  proof (cases "m_Buffers s")
    case Nil
    then show ?thesis by (subst FlushAll.simps) simp
  next
    case (Cons p rest)
    obtain tid buf where p: "p = (tid, buf)" by (cases p)
    from "1.IH" [OF Cons [unfolded p] refl] Cons p show ?thesis
      by (subst FlushAll.simps) (simp add: source_filter_iff)
  qed
qed

lemma append_Message_fields [simp]:
  "m_FormatMessage (append_Message now tid txt s) = m_FormatMessage s"
  "m_OutFile (append_Message now tid txt s) = m_OutFile s"
  "file_obj (append_Message now tid txt s) = file_obj s"
  "m_LogToFile (append_Message now tid txt s) = m_LogToFile s"
  "m_LogDebug (append_Message now tid txt s) = m_LogDebug s"
  "m_Format (append_Message now tid txt s) = m_Format s"
  "m_Level (append_Message now tid txt s) = m_Level s"
  "console (append_Message now tid txt s) = console s"
  "m_Buffers (append_Message now tid txt s) =
     modify_buffer now tid (\<lambda>b. b\<lparr>Message := Message b @ txt\<rparr>) (m_Buffers s)"
  by (simp_all add: append_Message_def)

lemma append_after_Flush:
  "map_of (m_Buffers (append_Message now' tid txt (Flush now tid s))) tid =
     Some ((Buffer_init now')\<lparr>Message := txt\<rparr>)"
  by (simp add: map_of_modify_buffer map_of_map_erase Buffer_init_def)

lemma CloseLogFile_fields [simp]:
  "m_FormatMessage (CloseLogFile s) = m_FormatMessage s"
  "m_OutFile (CloseLogFile s) = m_OutFile s"
  "m_LogToFile (CloseLogFile s) = False"
  "m_LogDebug (CloseLogFile s) = m_LogDebug s"
  "m_Buffers (CloseLogFile s) = m_Buffers s"
  "m_Format (CloseLogFile s) = m_Format s"
  "m_Level (CloseLogFile s) = m_Level s"
  "console (CloseLogFile s) = console s"
  "file_obj (CloseLogFile s) = CloseFile (m_OutFile s) (file_obj s)"
  by (simp_all add: CloseLogFile_def Let_def)

lemma DefaultFileOut_CloseFile:
  "CloseFile (DefaultFileOut can_open) f = f\<lparr>is_open := False\<rparr>"
  by (simp add: DefaultFileOut_def ofstream_close_def)

text \<open>With the default file object \<^verbatim>\<open>LogToFile\<close> never throws and always sets the flag.\<close>

lemma LogToFile_DefaultFileOut:
  fixes s :: "(ofstream, 'e) CLog"
  assumes "m_OutFile s = DefaultFileOut can_open"
  shows "LogToFile fname s =
     (None, s\<lparr>file_obj := ofstream_open can_open fname ((file_obj s)\<lparr>is_open := False\<rparr>),
               m_LogToFile := True\<rparr>)"
  using assms
  by (simp add: LogToFile_def DefaultFileOut_CloseFile Let_def)
     (simp add: DefaultFileOut_def CloseLogFile_def)

text \<open>With a file object whose \<^verbatim>\<open>OpenFile\<close> throws, the flag stays off.\<close>

lemma LogToFile_throws:
  assumes "OpenFile (m_OutFile s) fname (CloseFile (m_OutFile s) (file_obj s)) = (Some e, f)"
  shows "fst (LogToFile fname s) = Some e \<and> m_LogToFile (snd (LogToFile fname s)) = False"
  using assms by (simp add: LogToFile_def Let_def)

lemma LogToFile_m_Level [simp]: "m_Level (snd (LogToFile fname s)) = m_Level s"
  by (simp add: LogToFile_def Let_def split: prod.split option.split)

lemma setters_m_Level [simp]:
  "m_Level (SetTag now tid tag s) = m_Level s"
  "m_Level (SetLogLevel now tid lvl s) = m_Level s"
  "m_Level (ShowTimestamp now tid Show s) = m_Level s"
  "m_Level (EnableDebugLog State s) = m_Level s"
  "m_Level (SetNumFormat format s) = m_Level s"
  "m_Level (Put now tid c s) = m_Level s"
  "m_Level (shl_string now tid txt s) = m_Level s"
  "m_Level (shl_bool now tid b s) = m_Level s"
  "m_Level (shl_floating to_string now tid x s) = m_Level s"
  by (simp_all add: SetTag_def SetLogLevel_def ShowTimestamp_def EnableDebugLog_def
      SetNumFormat_def Put_def shl_string_def shl_bool_def shl_floating_def Let_def)

section \<open>Facts about runs\<close>

text \<open>Only \<^verbatim>\<open>ShowLogLevel\<close> changes the maximal visible level.\<close>

lemma exec_m_Level:
  "exec to_string (now, tid, c) s = Some s' \<Longrightarrow> \<not> is_ShowLogLevel c \<Longrightarrow> m_Level s' = m_Level s"
  by (cases c) (auto simp: shl_signed_def shl_unsigned_def FlushAll_fields)

lemma run_m_Level:
  "run to_string cs s = Some s' \<Longrightarrow> \<forall>(now, tid, c) \<in> set cs. \<not> is_ShowLogLevel c
     \<Longrightarrow> m_Level s' = m_Level s"
proof (induction cs arbitrary: s)
  case Nil
  then show ?case by simp
next
  case (Cons a cs)
  obtain now tid c where a: "a = (now, tid, c)" by (cases a)
  from Cons.prems(1) obtain s1 where s1: "exec to_string a s = Some s1"
    and r: "run to_string cs s1 = Some s'"
    by (auto split: option.splits)
  from s1 a Cons.prems(2) have "m_Level s1 = m_Level s"
    by (auto dest: exec_m_Level)
  moreover from Cons.IH [OF r] Cons.prems(2) have "m_Level s' = m_Level s1"
    by simp
  ultimately show ?case by simp
qed

lemma exec_append:
  assumes "is_append c" and "exec to_string (now, tid, c) s = Some s'"
  shows "\<exists>txt. appended_text to_string (m_Format s) c = Some txt
           \<and> s' = append_Message now tid txt s"
  using assms
  by (cases c) (auto simp: shl_signed_def shl_unsigned_def shl_floating_def shl_bool_def
      shl_string_def Put_def)

text \<open>
  A run of appends by one thread leaves, as that thread's message, what was there before
  followed by the strings the overloads computed, in the order of the calls.
\<close>

lemma run_appends:
  "\<forall>(now, t, c) \<in> set cs. t = tid \<and> is_append c \<Longrightarrow> run to_string cs s = Some s' \<Longrightarrow>
   \<exists>txts. map (\<lambda>(now, t, c). appended_text to_string (m_Format s) c) cs = map Some txts
      \<and> pending tid (m_Buffers s') = pending tid (m_Buffers s) @ concat txts"
proof (induction cs arbitrary: s)
  case Nil
  then show ?case by simp
next
  case (Cons a cs)
  obtain now t c where a: "a = (now, t, c)" by (cases a)
  with Cons.prems(1) have t: "t = tid" and ap: "is_append c" by simp_all
  from Cons.prems(2) obtain s1 where e: "exec to_string a s = Some s1"
    and r: "run to_string cs s1 = Some s'"
    by (auto split: option.splits)
  from exec_append [OF ap e [unfolded a]] obtain r0
    where r0: "appended_text to_string (m_Format s) c = Some r0"
      and s1: "s1 = append_Message now t r0 s"
    by blast
  from Cons.prems(1) have "\<forall>(now, t, c) \<in> set cs. t = tid \<and> is_append c" by simp
  from Cons.IH [OF this r] obtain txts
    where m: "map (\<lambda>(now, t, c). appended_text to_string (m_Format s1) c) cs = map Some txts"
      and p: "pending tid (m_Buffers s') = pending tid (m_Buffers s1) @ concat txts"
    by blast
  have f: "m_Format s1 = m_Format s" by (simp add: s1)
  have "map (\<lambda>(now, t, c). appended_text to_string (m_Format s) c) (a # cs)
      = map Some (r0 # txts)"
    using m r0 a f by simp
  moreover have "pending tid (m_Buffers s') = pending tid (m_Buffers s) @ concat (r0 # txts)"
    using p by (simp add: s1 t pending_modify_buffer)
  ultimately show ?case by blast
qed

text \<open>Which methods touch a member without holding the mutex.\<close>

lemma unlocked_bodys:
  "\<not> under_lock False (actions m) \<longleftrightarrow>
     m \<in> {ShowLogLevel_body, SetNumFormat_body, SetOutputCallback_body,
          SetFormatCallback_body, SetFileOutCallback_body}"
  by (cases m) simp_all

section \<open>Appending and flushing\<close>

text \<open>
  Claim C1. For every sequence of appends by one thread followed by a flush, the message
  portion of the rendered output is, character for character, the concatenation of the
  formatted text of each appended value. The concatenation itself is as claimed
  (\<open>run_appends\<close>), but what an integral append adds in decimal, hexadecimal or octal
  mode is not the formatted text: it is that text followed by a NUL character. At the
  input below the signed value 1 is appended in the default decimal mode to a fresh logger
  and flushed: the formatted text is \<^verbatim>\<open>"1"\<close>, the buffer's message is the two
  characters \<^verbatim>\<open>'1'\<close>, \<^verbatim>\<open>'\0'\<close>, and so is the message portion handed to the console.
\<close>

theorem decimal_append_keeps_terminator:
  "snprintf ''%ld'' 1 = Some ''1''
   \<and> map_option (\<lambda>s. map_option Message (map_of (m_Buffers s) tid))
        (shl_signed now tid 1 (CLog_init strftime_local can_open :: (ofstream, 'e) CLog))
       = Some (Some [CHR ''1'', CHR 0x00])
   \<and> map_option (\<lambda>s. console (Flush now' tid s))
        (shl_signed now tid 1 (CLog_init strftime_local can_open :: (ofstream, 'e) CLog))
       = Some [''[ '' @ strftime_local now @ '' ] '' @ [CHR ''1'', CHR 0x00]]"
proof -
  have t: "snprintf ''%ld'' 1 = Some ''1''"
    by (simp add: snprintf_examples)
  then have f: "FormatIntegral_signed (CHR ''d'') 1 = Some [CHR ''1'', CHR 0x00]"
    by (simp add: FormatIntegral_signed_def FormatIntegral_snprintf)
  let ?init = "CLog_init strftime_local can_open :: (ofstream, 'e) CLog"
  have s: "shl_signed now tid 1 ?init = Some (append_Message now tid [CHR ''1'', CHR 0x00] ?init)"
    using f by (simp add: shl_signed_def CLog_init_def)
  have b: "map_of (m_Buffers (append_Message now tid [CHR ''1'', CHR 0x00] ?init)) tid
      = Some ((Buffer_init now)\<lparr>Message := [CHR ''1'', CHR 0x00]\<rparr>)"
    by (simp add: map_of_modify_buffer CLog_init_def Buffer_init_def)
  have i: "m_LogDebug ?init = False" "m_Level ?init = - 1" "console ?init = []"
    "m_FormatMessage ?init = FormatMessage strftime_local"
    by (simp_all add: CLog_init_def)
  have c: "console (Flush now' tid (append_Message now tid [CHR ''1'', CHR 0x00] ?init))
      = [''[ '' @ strftime_local now @ '' ] '' @ [CHR ''1'', CHR 0x00]]"
    by (simp add: Flush_console_Some [OF b] i spec_filter_law_def Buffer_init_def
        FormatMessage_closed)
  from t s b c show ?thesis by simp
qed

section \<open>The filter at flush time\<close>

text \<open>
  Claim C2. At flush time a buffer is rendered and written exactly when the filter law
  holds: a debug buffer iff debug logging is enabled and its level is at most the maximal
  visible level, any other buffer iff its level is at most the maximal visible level,
  whatever the debug setting. For \<^verbatim>\<open>Flush\<close> the buffer is the calling thread's (a fresh
  one when it has none): the console receives the rendered text when the law holds and
  nothing otherwise, and the file object receives the same text when moreover file logging
  is on. For \<^verbatim>\<open>FlushAll\<close> the console and the file object receive the rendered texts of
  exactly the buffers for which the law holds, in the order of the map.
\<close>

theorem flush_filter_law:
  "console (Flush now tid s) =
     (let buf = fst (map_index now tid (m_Buffers s)) in
      if spec_filter_law (m_LogDebug s) (m_Level s) buf
      then console s @ [m_FormatMessage s buf] else console s)
   \<and> file_obj (Flush now tid s) =
     (let buf = fst (map_index now tid (m_Buffers s)) in
      if spec_filter_law (m_LogDebug s) (m_Level s) buf \<and> m_LogToFile s
      then WriteToFile (m_OutFile s) (m_FormatMessage s buf) (file_obj s) else file_obj s)
   \<and> console (FlushAll s) =
     console s @ map (m_FormatMessage s)
       (filter (spec_filter_law (m_LogDebug s) (m_Level s)) (map snd (m_Buffers s)))
   \<and> file_obj (FlushAll s) =
     (if m_LogToFile s
      then fold (WriteToFile (m_OutFile s)) (map (m_FormatMessage s)
        (filter (spec_filter_law (m_LogDebug s) (m_Level s)) (map snd (m_Buffers s))))
        (file_obj s)
      else file_obj s)"
  using Flush_console [of now tid s] Flush_file [of now tid s] FlushAll_console [of s]
    FlushAll_file [of s]
  by (simp only: simp_thms)

text \<open>
  A debug message at level 0 on a fresh logger: dropped while debug logging is off,
  rendered once it is on, dropped again when its level exceeds the maximal visible level.
\<close>

theorem flush_filter_law_witness:
  "console (Flush 1 0 (SetTag 0 0 ''debug''
      (CLog_init (\<lambda>t. ''T'') (\<lambda>f. True) :: (ofstream, unit) CLog))) = []
   \<and> console (Flush 1 0 (SetTag 0 0 ''debug'' (EnableDebugLog True
      (CLog_init (\<lambda>t. ''T'') (\<lambda>f. True) :: (ofstream, unit) CLog)))) = [''[ T ] [ debug ] '']
   \<and> console (Flush 1 0 (SetLogLevel 0 0 6 (ShowLogLevel 5
      (CLog_init (\<lambda>t. ''T'') (\<lambda>f. True) :: (ofstream, unit) CLog)))) = []"
proof -
  let ?init = "CLog_init (\<lambda>t. ''T'') (\<lambda>f. True) :: (ofstream, unit) CLog"
  have b1: "map_index 1 0 (m_Buffers (SetTag 0 0 ''debug'' ?init)) =
      (\<lparr>Time = 0, Tag = ''debug'', Message = [], Level = 0, DebugMsg = True, ShowTime = True\<rparr>,
       [(0, \<lparr>Time = 0, Tag = ''debug'', Message = [], Level = 0, DebugMsg = True,
              ShowTime = True\<rparr>)])"
    by (simp add: SetTag_def CLog_init_def modify_buffer_def map_index_def Buffer_init_def)
  have b2: "map_index 1 0 (m_Buffers (SetTag 0 0 ''debug'' (EnableDebugLog True ?init))) =
      (\<lparr>Time = 0, Tag = ''debug'', Message = [], Level = 0, DebugMsg = True, ShowTime = True\<rparr>,
       [(0, \<lparr>Time = 0, Tag = ''debug'', Message = [], Level = 0, DebugMsg = True,
              ShowTime = True\<rparr>)])"
    by (simp add: SetTag_def EnableDebugLog_def CLog_init_def modify_buffer_def map_index_def
        Buffer_init_def)
  have b3: "map_index 1 0 (m_Buffers (SetLogLevel 0 0 6 (ShowLogLevel 5 ?init))) =
      (\<lparr>Time = 0, Tag = [], Message = [], Level = 6, DebugMsg = False, ShowTime = True\<rparr>,
       [(0, \<lparr>Time = 0, Tag = [], Message = [], Level = 6, DebugMsg = False,
              ShowTime = True\<rparr>)])"
    by (simp add: SetLogLevel_def ShowLogLevel_def CLog_init_def modify_buffer_def
        map_index_def Buffer_init_def)
  have "console (Flush 1 0 (SetTag 0 0 ''debug'' ?init)) = []"
    using flush_filter_law [of 1 0 "SetTag 0 0 ''debug'' ?init"]
    by (simp add: b1 spec_filter_law_def) (simp add: SetTag_def CLog_init_def)
  moreover have "console (Flush 1 0 (SetTag 0 0 ''debug'' (EnableDebugLog True ?init)))
      = [''[ T ] [ debug ] '']"
    using flush_filter_law [of 1 0 "SetTag 0 0 ''debug'' (EnableDebugLog True ?init)"]
    by (simp add: b2 spec_filter_law_def)
       (simp add: SetTag_def EnableDebugLog_def CLog_init_def FormatMessage_closed)
  moreover have "console (Flush 1 0 (SetLogLevel 0 0 6 (ShowLogLevel 5 ?init))) = []"
    using flush_filter_law [of 1 0 "SetLogLevel 0 0 6 (ShowLogLevel 5 ?init)"]
    by (simp add: b3 spec_filter_law_def)
       (simp add: SetLogLevel_def ShowLogLevel_def CLog_init_def)
  ultimately show ?thesis by simp
qed

section \<open>Binary formatting\<close>

text \<open>
  Claim C3. In binary mode the value 0 is formatted as \<^verbatim>\<open>"0"\<close> and 15 as \<^verbatim>\<open>"1111"\<close>; the
  signed long -1 is formatted as all ones at the bit width of \<^verbatim>\<open>long\<close>. The first two
  hold. The loop of \<^verbatim>\<open>FormatIntegral\<close> counts down from \<^verbatim>\<open>sizeof(long)\<close>, the number of
  bytes of a \<^verbatim>\<open>long\<close>, and so looks at the low 8 bits only: -1 is formatted as eight
  ones, not as the 64 ones of the width of \<^verbatim>\<open>long\<close>, and 256 is formatted as \<^verbatim>\<open>"0"\<close>.
\<close>

theorem binary_format_examples:
  "FormatIntegral_signed (CHR ''b'') 0 = Some ''0''
   \<and> FormatIntegral_unsigned (CHR ''b'') 15 = Some ''1111''
   \<and> FormatIntegral_signed (CHR ''b'') (- 1) = Some ''11111111''
   \<and> FormatIntegral_signed (CHR ''b'') (- 1) \<noteq> Some (replicate 64 (CHR ''1''))
   \<and> FormatIntegral_signed (CHR ''b'') 256 = Some ''0''"
proof -
  have "length ''11111111'' \<noteq> length (replicate 64 (CHR ''1''))"
    by simp
  then have "''11111111'' \<noteq> replicate 64 (CHR ''1'')"
    by metis
  then show ?thesis
    by (simp only: FormatIntegral_signed_def FormatIntegral_unsigned_def binary_0 binary_15
        binary_minus_1 binary_256 option.inject simp_thms)
qed

section \<open>Opening and closing the log file\<close>

text \<open>
  Claim C4. When the log file cannot be opened, the caller of \<^verbatim>\<open>LogToFile\<close> gets the
  error and the file logging flag is not left on. \<^verbatim>\<open>LogToFile\<close> sets the flag after
  \<^verbatim>\<open>OpenFile\<close> returns, so a file object whose \<^verbatim>\<open>OpenFile\<close> throws leaves it off
  (\<open>LogToFile_throws\<close>). The default file object does not throw: \<^verbatim>\<open>std::ofstream::open\<close>
  only sets the stream's error state, which \<^verbatim>\<open>DefaultFileOut::OpenFile\<close> never reads.
  At the input below no file can be opened: \<^verbatim>\<open>LogToFile\<close> on a fresh logger returns
  without an exception, the flag is on, and the stream is closed and in its error state.
\<close>

theorem LogToFile_failed_open_is_silent:
  "fst (LogToFile fname (CLog_init strftime_local (\<lambda>f. False) :: (ofstream, 'e) CLog)) = None
   \<and> m_LogToFile (snd (LogToFile fname
        (CLog_init strftime_local (\<lambda>f. False) :: (ofstream, 'e) CLog))) = True
   \<and> is_open (file_obj (snd (LogToFile fname
        (CLog_init strftime_local (\<lambda>f. False) :: (ofstream, 'e) CLog)))) = False
   \<and> failbit (file_obj (snd (LogToFile fname
        (CLog_init strftime_local (\<lambda>f. False) :: (ofstream, 'e) CLog)))) = True"
  by (simp add: LogToFile_DefaultFileOut [where can_open = "\<lambda>f. False"] CLog_init_def
      ofstream_open_def)

section \<open>Flush removes the buffer\<close>

text \<open>
  Claim C5. Whatever the buffer map holds and whether or not the message passes the
  filter, \<^verbatim>\<open>Flush\<close> removes the calling thread's entry, and the next append by that
  thread starts from a freshly constructed buffer: after the append the thread's buffer is
  \<^verbatim>\<open>Buffer()\<close> with the appended text as its message. This is so for each overload of
  \<^verbatim>\<open>operator<<\<close> and for \<^verbatim>\<open>Put\<close>.
\<close>

theorem Flush_removes_buffer:
  "map_of (m_Buffers (Flush now tid s)) tid = None
   \<and> map_of (m_Buffers (Put now' tid c (Flush now tid s))) tid =
       Some ((Buffer_init now')\<lparr>Message := [c]\<rparr>)
   \<and> map_of (m_Buffers (shl_string now' tid txt (Flush now tid s))) tid =
       Some ((Buffer_init now')\<lparr>Message := txt\<rparr>)
   \<and> map_of (m_Buffers (shl_bool now' tid b (Flush now tid s))) tid =
       Some ((Buffer_init now')\<lparr>Message := (if b then ''true'' else ''false'')\<rparr>)
   \<and> map_of (m_Buffers (shl_floating to_string now' tid x (Flush now tid s))) tid =
       Some ((Buffer_init now')\<lparr>Message := to_string x\<rparr>)
   \<and> map_option (\<lambda>s'. map_of (m_Buffers s') tid) (shl_signed now' tid v (Flush now tid s)) =
       map_option (\<lambda>r. Some ((Buffer_init now')\<lparr>Message := r\<rparr>))
         (FormatIntegral_signed (m_Format s) v)
   \<and> map_option (\<lambda>s'. map_of (m_Buffers s') tid) (shl_unsigned now' tid u (Flush now tid s)) =
       map_option (\<lambda>r. Some ((Buffer_init now')\<lparr>Message := r\<rparr>))
         (FormatIntegral_unsigned (m_Format s) u)"
proof -
  have "map_of (m_Buffers (Flush now tid s)) tid = None"
    by (simp add: map_of_map_erase)
  moreover have "map_of (m_Buffers (Put now' tid c (Flush now tid s))) tid =
       Some ((Buffer_init now')\<lparr>Message := [c]\<rparr>)"
    unfolding Put_def by (rule append_after_Flush)
  moreover have "map_of (m_Buffers (shl_string now' tid txt (Flush now tid s))) tid =
       Some ((Buffer_init now')\<lparr>Message := txt\<rparr>)"
    unfolding shl_string_def by (rule append_after_Flush)
  moreover have "map_of (m_Buffers (shl_bool now' tid b (Flush now tid s))) tid =
       Some ((Buffer_init now')\<lparr>Message := (if b then ''true'' else ''false'')\<rparr>)"
    by (cases b) (simp_all only: shl_bool_def append_after_Flush if_True if_False)
  moreover have "map_of (m_Buffers (shl_floating to_string now' tid x (Flush now tid s))) tid =
       Some ((Buffer_init now')\<lparr>Message := to_string x\<rparr>)"
    unfolding shl_floating_def by (rule append_after_Flush)
  moreover have "map_option (\<lambda>s'. map_of (m_Buffers s') tid)
        (shl_signed now' tid v (Flush now tid s)) =
       map_option (\<lambda>r. Some ((Buffer_init now')\<lparr>Message := r\<rparr>))
         (FormatIntegral_signed (m_Format s) v)"
    unfolding shl_signed_def
    by (simp only: option.map_comp comp_def append_after_Flush Flush_fields)
  moreover have "map_option (\<lambda>s'. map_of (m_Buffers s') tid)
        (shl_unsigned now' tid u (Flush now tid s)) =
       map_option (\<lambda>r. Some ((Buffer_init now')\<lparr>Message := r\<rparr>))
         (FormatIntegral_unsigned (m_Format s) u)"
    unfolding shl_unsigned_def
    by (simp only: option.map_comp comp_def append_after_Flush Flush_fields)
  ultimately show ?thesis by blast
qed

section \<open>Closing twice\<close>

text \<open>
  Claim C6. \<^verbatim>\<open>CloseLogFile\<close> is idempotent: after each of two calls in a row the file
  logging flag is off, and the second call changes nothing and raises no error. With the
  default file object the second call finds the stream closed and leaves the logger as
  the first call left it; neither call touches the stream's error state.
\<close>

theorem CloseLogFile_idempotent:
  fixes s :: "(ofstream, 'e) CLog"
  assumes "m_OutFile s = DefaultFileOut can_open"
  shows "m_LogToFile (CloseLogFile s) = False
       \<and> m_LogToFile (CloseLogFile (CloseLogFile s)) = False
       \<and> CloseLogFile (CloseLogFile s) = CloseLogFile s
       \<and> is_open (file_obj (CloseLogFile s)) = False
       \<and> failbit (file_obj (CloseLogFile s)) = failbit (file_obj s)"
  using assms by (simp add: DefaultFileOut_CloseFile)

text \<open>A logger whose log file is open, closed twice.\<close>

theorem CloseLogFile_idempotent_witness:
  "m_LogToFile (snd (LogToFile ''Test.log''
      (CLog_init (\<lambda>t. []) (\<lambda>f. True) :: (ofstream, unit) CLog)))
   \<and> is_open (file_obj (snd (LogToFile ''Test.log''
      (CLog_init (\<lambda>t. []) (\<lambda>f. True) :: (ofstream, unit) CLog))))
   \<and> \<not> m_LogToFile (CloseLogFile (snd (LogToFile ''Test.log''
      (CLog_init (\<lambda>t. []) (\<lambda>f. True) :: (ofstream, unit) CLog))))
   \<and> CloseLogFile (CloseLogFile (snd (LogToFile ''Test.log''
      (CLog_init (\<lambda>t. []) (\<lambda>f. True) :: (ofstream, unit) CLog))))
       = CloseLogFile (snd (LogToFile ''Test.log''
      (CLog_init (\<lambda>t. []) (\<lambda>f. True) :: (ofstream, unit) CLog)))"
  using CloseLogFile_idempotent [of "snd (LogToFile ''Test.log''
      (CLog_init (\<lambda>t. []) (\<lambda>f. True) :: (ofstream, unit) CLog))" "\<lambda>f. True"]
  by (simp add: LogToFile_DefaultFileOut [where can_open = "\<lambda>f. True"] CLog_init_def
      ofstream_open_def ofstream_init_def)

section \<open>The layout of a rendered message\<close>

text \<open>
  Claim C7. For every buffer the default renderer \<^verbatim>\<open>FormatMessage\<close> produces, in this
  order: exactly \<open>Level\<close> space characters; then, exactly when \<open>ShowTime\<close> is set, the
  bracketed local time \<^verbatim>\<open>"[ " + strftime("%F %H:%M:%S") + " ] "\<close>; then, exactly when the
  tag is not empty, \<^verbatim>\<open>"[ " + Tag + " ] "\<close>; then the accumulated message text.
\<close>

theorem FormatMessage_layout:
  "FormatMessage strftime_local buf =
     replicate (unat (Level buf)) (CHR '' '')
     @ (if ShowTime buf then ''[ '' @ strftime_local (Time buf) @ '' ] '' else [])
     @ (if Tag buf \<noteq> [] then ''[ '' @ Tag buf @ '' ] '' else [])
     @ Message buf"
  by (rule FormatMessage_closed)

section \<open>Setters that do not lock\<close>

text \<open>
  Claim C8. Every method that reads or changes the logger, \<^verbatim>\<open>SetNumFormat\<close> and
  \<^verbatim>\<open>ShowLogLevel\<close> included, holds the one mutex while it does so. \<^verbatim>\<open>SetNumFormat\<close>
  writes \<open>m_Format\<close> and \<^verbatim>\<open>ShowLogLevel\<close> writes \<open>m_Level\<close> with no
  \<^verbatim>\<open>std::lock_guard\<close> in their bodies, while the setters beside them
  (\<^verbatim>\<open>EnableDebugLog\<close>, \<^verbatim>\<open>SetLogLevel\<close>) and the readers of the two members (the integral
  \<^verbatim>\<open>operator<<\<close>, \<^verbatim>\<open>Flush\<close>) do hold it.
\<close>

theorem setters_without_lock:
  "\<not> under_lock False (actions SetNumFormat_body)
   \<and> \<not> under_lock False (actions ShowLogLevel_body)
   \<and> under_lock False (actions EnableDebugLog_body)
   \<and> under_lock False (actions SetLogLevel_body)
   \<and> under_lock False (actions shl_integral_body)
   \<and> under_lock False (actions Flush_body)"
  by simp

section \<open>Flushing without an append\<close>

text \<open>
  Claim C9. \<^verbatim>\<open>Flush\<close> by a thread that has no buffer creates the default buffer (level
  0, no tag, not a debug message, time stamp shown, empty message). Under the default
  filter settings (debug logging off, maximal visible level -1) and with the default
  renderer it passes the filter, and the console receives one line that is the time stamp
  prefix with an empty message body.
\<close>

theorem Flush_without_append:
  assumes "map_of (m_Buffers s) tid = None"
    and "m_FormatMessage s = FormatMessage strftime_local"
    and "m_LogDebug s = False"
    and "m_Level s = - 1"
  shows "fst (map_index now tid (m_Buffers s)) =
           \<lparr>Time = now, Tag = [], Message = [], Level = 0, DebugMsg = False, ShowTime = True\<rparr>
         \<and> console (Flush now tid s) = console s @ [''[ '' @ strftime_local now @ '' ] '']"
  using assms
  by (simp add: Flush_console map_index_def Buffer_init_def spec_filter_law_def
      FormatMessage_closed)

theorem Flush_without_append_witness:
  "console (Flush 0 0
      (CLog_init (\<lambda>t. ''2020-01-01 00:00:00'') (\<lambda>f. True) :: (ofstream, unit) CLog))
     = [''[ 2020-01-01 00:00:00 ] '']"
  using Flush_without_append
    [of "CLog_init (\<lambda>t. ''2020-01-01 00:00:00'') (\<lambda>f. True) :: (ofstream, unit) CLog"
      0 "\<lambda>t. ''2020-01-01 00:00:00''" 0]
  by (simp add: CLog_init_def)

section \<open>The default maximal visible level\<close>

text \<open>
  Claim C10. A fresh logger has \<open>m_Level\<close> set from -1, which in the unsigned 32-bit
  member is \<open>2 ^ 32 - 1\<close>. After any run of calls from the fresh logger in which
  \<^verbatim>\<open>ShowLogLevel\<close> is not called the member still has that value, every buffer level is
  at most it, and the filter at flush time depends on the debug setting alone: no message
  is dropped for its level.
\<close>

theorem default_level_shows_all:
  fixes s :: "(ofstream, 'e) CLog"
  assumes "run to_string cs (CLog_init strftime_local can_open) = Some s"
    and "\<forall>(now, tid, c) \<in> set cs. \<not> is_ShowLogLevel c"
  shows "unat (m_Level (CLog_init strftime_local can_open :: (ofstream, 'e) CLog)) = 2 ^ 32 - 1
       \<and> unat (m_Level s) = 2 ^ 32 - 1
       \<and> (\<forall>buf :: Buffer. Level buf \<le> m_Level s)
       \<and> (\<forall>buf :: Buffer. spec_filter_law (m_LogDebug s) (m_Level s) buf
            = (m_LogDebug s \<or> \<not> DebugMsg buf))"
proof -
  have init: "m_Level (CLog_init strftime_local can_open :: (ofstream, 'e) CLog) = - 1"
    by (simp add: CLog_init_def)
  with run_m_Level [OF assms] have "m_Level s = - 1"
    by simp
  moreover have "unat (- 1 :: uint32_t) = 2 ^ 32 - 1"
    by (simp add: unsigned_minus_1_eq_mask mask_eq_exp_minus_1)
  ultimately show ?thesis
    using init by (simp add: spec_filter_law_def)
qed

theorem default_level_shows_all_witness:
  "\<exists>s :: (ofstream, unit) CLog.
     run (\<lambda>x :: unit. [])
       [(0, 0, Call_SetLogLevel 4000000000), (0, 0, Call_shl_string ''x''),
        (1, 0, Call_EnableDebugLog True)]
       (CLog_init (\<lambda>t. []) (\<lambda>f. True)) = Some s
     \<and> unat (m_Level s) = 4294967295
     \<and> (\<forall>buf :: Buffer. Level buf \<le> m_Level s)"
proof -
  let ?cs = "[(0, 0, Call_SetLogLevel 4000000000), (0, 0, Call_shl_string ''x''),
        (1, 0, Call_EnableDebugLog True)] :: (time_t \<times> thread_id \<times> unit call) list"
  let ?init = "CLog_init (\<lambda>t. []) (\<lambda>f. True) :: (ofstream, unit) CLog"
  obtain s where r: "run (\<lambda>x :: unit. []) ?cs ?init = Some s"
    by simp
  have n: "\<forall>(now, tid, c) \<in> set ?cs. \<not> is_ShowLogLevel c"
    by simp
  from default_level_shows_all [OF r n] have "unat (m_Level s) = 4294967295"
    and "\<forall>buf :: Buffer. Level buf \<le> m_Level s"
    by simp_all
  with r show ?thesis by blast
qed

end
